theory Spec2Isabelle
  imports Main "HOL-Library.AList"
begin

section \<open>The authenticated HTTP client of \<^verbatim>\<open>services/api.ts\<close>\<close>

subsection \<open>JavaScript values, requests, responses and errors\<close>

text \<open>
  The JSON values the client itself inspects: the body of the refresh and logout calls
  (\<^verbatim>\<open>{ refresh_token: refreshToken }\<close>, where \<^verbatim>\<open>refreshToken\<close> is a string or
  \<^verbatim>\<open>null\<close>) and the body of the refresh response, from which \<^verbatim>\<open>access_token\<close> is
  destructured. An object is an association list with distinct keys.
\<close>

datatype jsval = JUndefined | JNull | JStr string | JObj "(string \<times> jsval) list"

datatype http_method = GET | POST

text \<open>
  An axios request configuration. \<open>baseURL\<close> is \<open>None\<close> for a request made with the
  global \<^verbatim>\<open>axios\<close> object, which has no base URL configured; \<open>meth\<close> is the HTTP
  verb of the request; \<open>retry\<close> is the \<^verbatim>\<open>_retry\<close> property the response interceptor
  sets (absent reads as false).
\<close>

record config =
  baseURL :: "string option"
  url :: string
  meth :: http_method
  data :: jsval
  headers :: "(string \<times> string) list"
  retry :: bool

record response =
  status :: nat
  rdata :: jsval

text \<open>
  What a promise of this module can reject with: an axios error, which carries the
  configuration of the request and the response when the server sent one
  (\<^verbatim>\<open>error.response\<close> is undefined after a transport failure), or the \<^verbatim>\<open>TypeError\<close>
  JavaScript throws when a property of \<^verbatim>\<open>undefined\<close> or \<^verbatim>\<open>null\<close> is read.
\<close>

datatype js_error = AxiosError config "response option" | TypeError

text \<open>\<^verbatim>\<open>String(v)\<close>, as applied by a template literal and by \<^verbatim>\<open>localStorage.setItem\<close>.\<close>

fun js_string :: "jsval \<Rightarrow> string" where
  "js_string JUndefined = ''undefined''"
| "js_string JNull = ''null''"
| "js_string (JStr s) = s"
| "js_string (JObj kvs) = ''[object Object]''"

text \<open>
  \<^verbatim>\<open>const { access_token } = response.data\<close>: destructuring \<^verbatim>\<open>undefined\<close> or
  \<^verbatim>\<open>null\<close> throws, a missing property reads as \<^verbatim>\<open>undefined\<close>.
\<close>

fun destructure_access_token :: "jsval \<Rightarrow> js_error + jsval" where
  "destructure_access_token JUndefined = Inl TypeError"
| "destructure_access_token JNull = Inl TypeError"
| "destructure_access_token (JStr s) = Inr JUndefined"
| "destructure_access_token (JObj kvs) =
     Inr (case map_of kvs ''access_token'' of None \<Rightarrow> JUndefined | Some v \<Rightarrow> v)"

subsection \<open>The token store and the browser\<close>

type_synonym storage = "string \<rightharpoonup> string"

definition getItem :: "storage \<Rightarrow> string \<Rightarrow> string option" where
  "getItem ls k = ls k"

definition setItem :: "storage \<Rightarrow> string \<Rightarrow> string \<Rightarrow> storage" where
  "setItem ls k v = ls(k \<mapsto> v)"

definition removeItem :: "storage \<Rightarrow> string \<Rightarrow> storage" where
  "removeItem ls k = ls(k := None)"

text \<open>\<^verbatim>\<open>{ refresh_token: refreshToken }\<close> for the value \<^verbatim>\<open>getItem\<close> returned.\<close>

definition refresh_token_body :: "string option \<Rightarrow> jsval" where
  "refresh_token_body refreshToken =
     JObj [(''refresh_token'', (case refreshToken of None \<Rightarrow> JNull | Some s \<Rightarrow> JStr s))]"

text \<open>
  The two axios instances of the module: \<^verbatim>\<open>api\<close>, created with a base URL and carrying
  the two interceptors, and the global \<^verbatim>\<open>axios\<close>, which has neither.
\<close>

datatype axios_instance = Api | Axios

text \<open>
  The state the module reads and writes: \<^verbatim>\<open>localStorage\<close>, \<^verbatim>\<open>window.location.href\<close>,
  and the requests put on the network so far, each with the instance that sent it.
\<close>

record browser =
  localStorage :: storage
  location_href :: string
  sent :: "(axios_instance \<times> config) list"

text \<open>
  The backend is outside the repository: it is any function from the number of requests
  already sent and the request to what comes back.
\<close>

datatype reply = Reply response | NetworkError

type_synonym backend = "nat \<Rightarrow> config \<Rightarrow> reply"

text \<open>
  Sending one request. Axios fulfils the promise for a status in the 2xx range and
  rejects it otherwise, with an error that holds the response; after a transport failure
  the error holds no response.
\<close>

definition dispatch ::
  "backend \<Rightarrow> axios_instance \<Rightarrow> browser \<Rightarrow> config \<Rightarrow> (js_error + response) \<times> browser" where
  "dispatch srv inst w c =
     (let w' = w\<lparr>sent := sent w @ [(inst, c)]\<rparr> in
      case srv (length (sent w)) c of
        NetworkError \<Rightarrow> (Inl (AxiosError c None), w')
      | Reply r \<Rightarrow>
          if 200 \<le> status r \<and> status r < 300 then (Inr r, w')
          else (Inl (AxiosError c (Some r)), w'))"

subsection \<open>The instance and its interceptors\<close>

text \<open>\<^verbatim>\<open>process.env.REACT_APP_API_URL || 'http://localhost:8000'\<close>\<close>

definition api_baseURL :: "string option \<Rightarrow> string" where
  "api_baseURL env =
     (case env of
        None \<Rightarrow> ''http://localhost:8000''
      | Some u \<Rightarrow> if u \<noteq> [] then u else ''http://localhost:8000'')"

text \<open>The configuration \<^verbatim>\<open>api.get(url)\<close> and \<^verbatim>\<open>api.post(url, data)\<close> start from.\<close>

definition api_config :: "string option \<Rightarrow> http_method \<Rightarrow> string \<Rightarrow> jsval \<Rightarrow> config" where
  "api_config env m u d =
     \<lparr>baseURL = Some (api_baseURL env), url = u, meth = m, data = d,
      headers = [(''Content-Type'', ''application/json'')], retry = False\<rparr>"

text \<open>
  \<^verbatim>\<open>axios.post(url, data)\<close> on the global instance: no base URL, no header of this
  module, no interceptor.
\<close>

definition axios_config :: "string \<Rightarrow> jsval \<Rightarrow> config" where
  "axios_config u d =
     \<lparr>baseURL = None, url = u, meth = POST, data = d, headers = [], retry = False\<rparr>"

definition axios_post ::
  "backend \<Rightarrow> browser \<Rightarrow> string \<Rightarrow> jsval \<Rightarrow> (js_error + response) \<times> browser" where
  "axios_post srv w u d = dispatch srv Axios w (axios_config u d)"

definition request_interceptor :: "browser \<Rightarrow> config \<Rightarrow> config" where
  "request_interceptor w c =
     (case getItem (localStorage w) ''access_token'' of
        None \<Rightarrow> c
      | Some token \<Rightarrow>
          if token \<noteq> [] then
            c\<lparr>headers := AList.update ''Authorization'' (''Bearer '' @ token) (headers c)\<rparr>
          else c)"

text \<open>The \<^verbatim>\<open>catch\<close> block of the response interceptor.\<close>

definition refresh_failed :: "browser \<Rightarrow> js_error \<Rightarrow> (js_error + response) \<times> browser" where
  "refresh_failed w err =
     (Inl err,
      w\<lparr>localStorage := removeItem (removeItem (localStorage w) ''access_token'') ''refresh_token'',
        location_href := ''/login''\<rparr>)"

text \<open>
  \<open>api\<close> is a call of the instance on a configuration: request interceptor, dispatch,
  and on rejection the response interceptor \<open>response_rejected\<close>, which calls the
  instance again on the request it has marked.
\<close>

function api :: "backend \<Rightarrow> browser \<Rightarrow> config \<Rightarrow> (js_error + response) \<times> browser"
  and response_rejected :: "backend \<Rightarrow> browser \<Rightarrow> js_error \<Rightarrow> (js_error + response) \<times> browser"
where
  "api srv w c =
     (case dispatch srv Api w (request_interceptor w c) of
        (Inr r, w') \<Rightarrow> (Inr r, w')
      | (Inl error, w') \<Rightarrow> response_rejected srv w' error)"
| "response_rejected srv w TypeError = (Inl TypeError, w)"
| "response_rejected srv w (AxiosError originalRequest None) = (Inl TypeError, w)"
| "response_rejected srv w (AxiosError originalRequest (Some resp)) =
     (if status resp = 401 \<and> \<not> retry originalRequest then
        (let originalRequest = originalRequest\<lparr>retry := True\<rparr>;
             refreshToken = getItem (localStorage w) ''refresh_token''
         in case axios_post srv w ''/api/auth/refresh'' (refresh_token_body refreshToken) of
              (Inl err, w1) \<Rightarrow> refresh_failed w1 err
            | (Inr r, w1) \<Rightarrow>
                (case destructure_access_token (rdata r) of
                   Inl err \<Rightarrow> refresh_failed w1 err
                 | Inr access_token \<Rightarrow>
                     api srv
                       (w1\<lparr>localStorage :=
                             setItem (localStorage w1) ''access_token'' (js_string access_token)\<rparr>)
                       (originalRequest\<lparr>headers :=
                          AList.update ''Authorization'' (''Bearer '' @ js_string access_token)
                            (headers originalRequest)\<rparr>)))
      else (Inl (AxiosError originalRequest (Some resp)), w))"
  by pat_completeness auto


text \<open>
  The instance is called again only from a request whose \<open>retry\<close> was unset, on a
  request whose \<open>retry\<close> is set, and the request interceptor does not touch \<open>retry\<close>:
  every call returns.
\<close>

termination
  apply (relation "measure (\<lambda>x. case x of
            Inl (srv, w, c) \<Rightarrow> (if retry c then 1 else 3)
          | Inr (srv, w, e) \<Rightarrow>
              (case e of AxiosError c r \<Rightarrow> (if retry c then 0 else 2) | TypeError \<Rightarrow> 0))")
    apply simp
   apply (auto simp: dispatch_def Let_def request_interceptor_def
               split: reply.splits if_splits option.splits)
  done

declare api.simps [simp del]

subsection \<open>The facade operation that touches the token store\<close>

text \<open>
  \<^verbatim>\<open>api.post(url, data)\<close>, and \<^verbatim>\<open>auth.logout\<close>: the two \<^verbatim>\<open>removeItem\<close> calls follow
  the awaited request, so a rejection of the request leaves the function before them.
\<close>

definition api_post ::
  "string option \<Rightarrow> backend \<Rightarrow> browser \<Rightarrow> string \<Rightarrow> jsval \<Rightarrow> (js_error + response) \<times> browser" where
  "api_post env srv w u d = api srv w (api_config env POST u d)"

definition auth_logout ::
  "string option \<Rightarrow> backend \<Rightarrow> browser \<Rightarrow> (js_error + unit) \<times> browser" where
  "auth_logout env srv w =
     (let refreshToken = getItem (localStorage w) ''refresh_token'' in
      case api_post env srv w ''/api/auth/logout'' (refresh_token_body refreshToken) of
        (Inl err, w1) \<Rightarrow> (Inl err, w1)
      | (Inr r, w1) \<Rightarrow>
          (Inr (),
           w1\<lparr>localStorage :=
                removeItem (removeItem (localStorage w1) ''access_token'') ''refresh_token''\<rparr>))"

text \<open>How many requests an instance has put on the network.\<close>

definition sent_by :: "axios_instance \<Rightarrow> browser \<Rightarrow> nat" where
  "sent_by inst w = length (filter (\<lambda>x. fst x = inst) (sent w))"

section \<open>The analysis pages\<close>

text \<open>
  The three pages (\<^verbatim>\<open>EmailAnalysis.tsx\<close>, \<^verbatim>\<open>LifeBalance.tsx\<close>, \<^verbatim>\<open>Memory.tsx\<close>) hold the
  same three pieces of React state besides their inputs. \<open>'r\<close> is the page's
  \<^verbatim>\<open>AnalysisResult\<close>.
\<close>

record 'r page =
  loading :: bool
  result :: "'r option"
  error :: "string option"

text \<open>
  The object a facade call resolved with: \<open>d k\<close> is its property \<open>k\<close>, \<open>None\<close> when
  the property is undefined. \<open>'v\<close> stands for the values the backend puts there.
\<close>

type_synonym 'v payload = "string \<rightharpoonup> 'v"

text \<open>
  \<^verbatim>\<open>Promise.all\<close> on promises that have settled as given: fulfilled with all values, or
  rejected when one of them is. Which rejection it reports when several promises reject
  depends on timing; the handlers only log it, so the first in list order stands for it.
\<close>

fun promise_all :: "(js_error + 'a) list \<Rightarrow> js_error + 'a list" where
  "promise_all [] = Inr []"
| "promise_all (Inl e # ps) = Inl e"
| "promise_all (Inr v # ps) = (case promise_all ps of Inl e \<Rightarrow> Inl e | Inr vs \<Rightarrow> Inr (v # vs))"

record 'v email_result =
  summary :: "'v option"
  sentiment :: "'v option"
  priority :: "'v option"
  action_items :: "'v option"
  reply_suggestions :: "'v option"

text \<open>
  \<^verbatim>\<open>handleAnalyze\<close> of \<^verbatim>\<open>EmailAnalysis.tsx\<close>, from the page state at the click to the
  page state when the handler has finished. The arguments are what the five facade calls
  settled with, in the order of the array given to \<^verbatim>\<open>Promise.all\<close>.
\<close>

definition EmailAnalysis_handleAnalyze ::
  "js_error + 'v payload \<Rightarrow> js_error + 'v payload \<Rightarrow> js_error + 'v payload \<Rightarrow>
   js_error + 'v payload \<Rightarrow> js_error + 'v payload \<Rightarrow>
   'v email_result page \<Rightarrow> 'v email_result page" where
  "EmailAnalysis_handleAnalyze summarize analyzeSentiment classifyPriority extractActions
       generateReplies p =
     (let p = p\<lparr>loading := True\<rparr>;
          p = p\<lparr>error := None\<rparr>;
          p = (case promise_all
                      [summarize, analyzeSentiment, classifyPriority, extractActions,
                       generateReplies] of
                 Inr [summaryResult, sentimentResult, priorityResult, actionItemsResult,
                      replySuggestionsResult] \<Rightarrow>
                   p\<lparr>result := Some
                       \<lparr>summary = summaryResult ''summary'',
                        sentiment = sentimentResult ''sentiment'',
                        priority = priorityResult ''priority'',
                        action_items = actionItemsResult ''action_items'',
                        reply_suggestions = replySuggestionsResult ''reply_suggestions''\<rparr>\<rparr>
               | _ \<Rightarrow> p\<lparr>error := Some ''Failed to analyze email. Please try again.''\<rparr>)
      in p\<lparr>loading := False\<rparr>)"

record 'v life_balance_result =
  balance_score :: "'v option"
  insights :: "'v option"
  recommendations :: "'v option"
  optimized_schedule :: "'v option"

text \<open>\<^verbatim>\<open>handleAnalyze\<close> of \<^verbatim>\<open>LifeBalance.tsx\<close>, with its four facade calls.\<close>

definition LifeBalance_handleAnalyze ::
  "js_error + 'v payload \<Rightarrow> js_error + 'v payload \<Rightarrow> js_error + 'v payload \<Rightarrow>
   js_error + 'v payload \<Rightarrow>
   'v life_balance_result page \<Rightarrow> 'v life_balance_result page" where
  "LifeBalance_handleAnalyze calculateScores generateInsights getRecommendations
       optimizeSchedule p =
     (let p = p\<lparr>loading := True\<rparr>;
          p = p\<lparr>error := None\<rparr>;
          p = (case promise_all
                      [calculateScores, generateInsights, getRecommendations,
                       optimizeSchedule] of
                 Inr [balanceResult, insightsResult, recommendationsResult, scheduleResult] \<Rightarrow>
                   p\<lparr>result := Some
                       \<lparr>balance_score = balanceResult ''overall_score'',
                        insights = insightsResult ''insights'',
                        recommendations = recommendationsResult ''recommendations'',
                        optimized_schedule = scheduleResult ''optimized_schedule''\<rparr>\<rparr>
               | _ \<Rightarrow> p\<lparr>error := Some ''Failed to analyze life balance. Please try again.''\<rparr>)
      in p\<lparr>loading := False\<rparr>)"

record 'v memory_result =
  learning_style :: "'v option"
  performance_metrics :: "'v option"
  study_recommendations :: "'v option"
  key_concepts :: "'v option"
  review_questions :: "'v option"
  knowledge_gaps :: "'v option"

text \<open>
  \<^verbatim>\<open>handleAnalyze\<close> of \<^verbatim>\<open>Memory.tsx\<close>, with its six facade calls. The field the page
  calls \<^verbatim>\<open>recommendations\<close> is \<open>study_recommendations\<close> here, the name being taken by
  the life-balance result.
\<close>

definition Memory_handleAnalyze ::
  "js_error + 'v payload \<Rightarrow> js_error + 'v payload \<Rightarrow> js_error + 'v payload \<Rightarrow>
   js_error + 'v payload \<Rightarrow> js_error + 'v payload \<Rightarrow> js_error + 'v payload \<Rightarrow>
   'v memory_result page \<Rightarrow> 'v memory_result page" where
  "Memory_handleAnalyze identifyLearningStyle calculatePerformanceMetrics
       getStudyRecommendations extractKeyConceptsFromContent generateReviewQuestions
       analyzeKnowledgeGaps p =
     (let p = p\<lparr>loading := True\<rparr>;
          p = p\<lparr>error := None\<rparr>;
          p = (case promise_all
                      [identifyLearningStyle, calculatePerformanceMetrics,
                       getStudyRecommendations, extractKeyConceptsFromContent,
                       generateReviewQuestions, analyzeKnowledgeGaps] of
                 Inr [styleResult, metricsResult, recommendationsResult, conceptsResult,
                      questionsResult, gapsResult] \<Rightarrow>
                   p\<lparr>result := Some
                       \<lparr>learning_style = styleResult ''learning_style'',
                        performance_metrics = metricsResult ''metrics'',
                        study_recommendations = recommendationsResult ''recommendations'',
                        key_concepts = conceptsResult ''concepts'',
                        review_questions = questionsResult ''questions'',
                        knowledge_gaps = gapsResult ''gaps''\<rparr>\<rparr>
               | _ \<Rightarrow>
                   p\<lparr>error := Some ''Failed to analyze memory and learning. Please try again.''\<rparr>)
      in p\<lparr>loading := False\<rparr>)"

text \<open>
  What the JSX of a page shows of that state: \<^verbatim>\<open>{error && ...}\<close> is the failure
  message, \<^verbatim>\<open>{result && ...}\<close> the result block (an empty string is falsy, an object
  is not).
\<close>

record 'r view =
  error_banner :: "string option"
  result_block :: "'r option"

definition render :: "'r page \<Rightarrow> 'r view" where
  "render p =
     \<lparr>error_banner =
        (case error p of None \<Rightarrow> None | Some m \<Rightarrow> if m \<noteq> [] then Some m else None),
      result_block = result p\<rparr>"

section \<open>Scenarios\<close>

text \<open>
  Concrete browsers, requests and backends on which the theorems below are evaluated.
  A scripted backend answers the \<open>n\<close>-th request with the \<open>n\<close>-th entry of the
  script, whatever the request is, and drops the connection once the script is used up.
\<close>

definition scripted :: "reply list \<Rightarrow> backend" where
  "scripted rs n c = (if n < length rs then rs ! n else NetworkError)"

definition logged_in :: browser where
  "logged_in =
     \<lparr>localStorage = [''access_token'' \<mapsto> ''a1'', ''refresh_token'' \<mapsto> ''r1''],
      location_href = ''/email-analysis'', sent = []\<rparr>"

definition no_refresh_token :: browser where
  "no_refresh_token =
     \<lparr>localStorage = [''access_token'' \<mapsto> ''a1''],
      location_href = ''/email-analysis'', sent = []\<rparr>"

definition empty_access_token :: browser where
  "empty_access_token =
     \<lparr>localStorage = [''access_token'' \<mapsto> [], ''refresh_token'' \<mapsto> ''r1''],
      location_href = ''/email-analysis'', sent = []\<rparr>"

definition logged_out :: browser where
  "logged_out = \<lparr>localStorage = Map.empty, location_href = ''/login'', sent = []\<rparr>"

definition summarize_request :: "string option \<Rightarrow> config" where
  "summarize_request env =
     api_config env POST ''/api/email/summarize''
       (JObj [(''content'', JStr ''Test Content''), (''subject'', JStr ''Test Subject'')])"

definition unauthorized :: response where
  "unauthorized = \<lparr>status = 401, rdata = JObj [(''detail'', JStr ''Token expired'')]\<rparr>"

definition forbidden :: response where
  "forbidden = \<lparr>status = 403, rdata = JObj [(''detail'', JStr ''Invalid refresh token'')]\<rparr>"

definition server_error :: response where
  "server_error = \<lparr>status = 500, rdata = JNull\<rparr>"

definition refreshed :: response where
  "refreshed = \<lparr>status = 200, rdata = JObj [(''access_token'', JStr ''a2'')]\<rparr>"

definition acknowledged :: response where
  "acknowledged = \<lparr>status = 200, rdata = JObj []\<rparr>"

definition summarized :: response where
  "summarized = \<lparr>status = 200, rdata = JObj [(''summary'', JStr ''Test Summary'')]\<rparr>"

text \<open>
  A page as \<^verbatim>\<open>useState\<close> initialises it, a facade call that was rejected with a 500, and
  a facade call that resolved with an object of one property.
\<close>

definition initial_page :: "'r page" where
  "initial_page = \<lparr>loading = False, result = None, error = None\<rparr>"

definition rejected :: "js_error + string payload" where
  "rejected = Inl (AxiosError (summarize_request None) (Some server_error))"

definition resolved :: "string \<Rightarrow> string \<Rightarrow> js_error + string payload" where
  "resolved k v = Inr [k \<mapsto> v]"

section \<open>Properties of the client\<close>

subsection \<open>One call of the instance, step by step\<close>

lemma retry_request_interceptor: "retry (request_interceptor w c) = retry c"
  by (simp add: request_interceptor_def split: option.splits)

text \<open>The instance on any request: the first dispatch and what follows each reply.\<close>

lemma api_unfold:
  "api srv w c =
     (case srv (length (sent w)) (request_interceptor w c) of
        NetworkError \<Rightarrow> (Inl TypeError, w\<lparr>sent := sent w @ [(Api, request_interceptor w c)]\<rparr>)
      | Reply r \<Rightarrow>
          if 200 \<le> status r \<and> status r < 300
          then (Inr r, w\<lparr>sent := sent w @ [(Api, request_interceptor w c)]\<rparr>)
          else response_rejected srv (w\<lparr>sent := sent w @ [(Api, request_interceptor w c)]\<rparr>)
                 (AxiosError (request_interceptor w c) (Some r)))"
  by (simp add: api.simps dispatch_def Let_def split: reply.splits)

text \<open>The instance on a request already marked: one dispatch, no recursion.\<close>

lemma api_retried:
  assumes "retry c"
  shows "api srv w c =
     (case srv (length (sent w)) (request_interceptor w c) of
        NetworkError \<Rightarrow> (Inl TypeError, w\<lparr>sent := sent w @ [(Api, request_interceptor w c)]\<rparr>)
      | Reply r \<Rightarrow>
          if 200 \<le> status r \<and> status r < 300
          then (Inr r, w\<lparr>sent := sent w @ [(Api, request_interceptor w c)]\<rparr>)
          else (Inl (AxiosError (request_interceptor w c) (Some r)),
                w\<lparr>sent := sent w @ [(Api, request_interceptor w c)]\<rparr>))"
  using assms
  by (simp add: api_unfold retry_request_interceptor split: reply.splits)

lemma sent_refresh_failed: "sent (snd (refresh_failed w e)) = sent w"
  by (simp add: refresh_failed_def)

lemma sent_api_retried:
  "retry c \<Longrightarrow> sent (snd (api srv w c)) = sent w @ [(Api, request_interceptor w c)]"
  by (simp add: api_retried split: reply.splits)

text \<open>The requests the response interceptor adds to the network: none, the refresh
  call, or the refresh call and one dispatch of the marked request.\<close>

lemma sent_response_rejected:
  "\<exists>c2. sent (snd (response_rejected srv w e)) = sent w
      \<or> sent (snd (response_rejected srv w e)) =
           sent w @ [(Axios, axios_config ''/api/auth/refresh''
                       (refresh_token_body (getItem (localStorage w) ''refresh_token'')))]
      \<or> sent (snd (response_rejected srv w e)) =
           sent w @ [(Axios, axios_config ''/api/auth/refresh''
                       (refresh_token_body (getItem (localStorage w) ''refresh_token''))),
                     (Api, c2)]"
proof (cases e)
  case TypeError
  then show ?thesis by simp
next
  case (AxiosError c ro)
  show ?thesis
  proof (cases ro)
    case None
    with AxiosError show ?thesis by simp
  next
    case (Some resp)
    show ?thesis
      unfolding AxiosError Some
      by (auto simp: Let_def axios_post_def dispatch_def sent_refresh_failed sent_api_retried
               split: reply.splits sum.splits prod.splits)
  qed
qed

lemma sent_by_response_rejected:
  "sent_by Axios (snd (response_rejected srv w e)) \<le> sent_by Axios w + 1
   \<and> sent_by Api (snd (response_rejected srv w e)) \<le> sent_by Api w + 1"
  using sent_response_rejected [of srv w e] by (auto simp: sent_by_def)

lemma sent_by_append:
  "sent_by inst (w\<lparr>sent := sent w @ [(i, c)]\<rparr>) = sent_by inst w + (if i = inst then 1 else 0)"
  by (simp add: sent_by_def)

text \<open>A first 401: the response interceptor runs on the browser the dispatch left.\<close>

lemma api_first_401:
  assumes "srv (length (sent w)) (request_interceptor w c) = Reply resp" "status resp = 401"
  shows "api srv w c =
           response_rejected srv (w\<lparr>sent := sent w @ [(Api, request_interceptor w c)]\<rparr>)
             (AxiosError (request_interceptor w c) (Some resp))"
  using assms by (simp add: api_unfold)

text \<open>The refresh call fails: the \<^verbatim>\<open>catch\<close> block decides the outcome.\<close>

lemma response_rejected_refresh_failure:
  assumes "\<not> retry c" "status resp = 401"
    and "axios_post srv w ''/api/auth/refresh''
           (refresh_token_body (getItem (localStorage w) ''refresh_token'')) = (Inl err, w')"
  shows "response_rejected srv w (AxiosError c (Some resp)) = refresh_failed w' err"
  using assms by (simp add: Let_def)

lemma axios_post_result:
  "axios_post srv w u d =
     (case srv (length (sent w)) (axios_config u d) of
        NetworkError \<Rightarrow>
          (Inl (AxiosError (axios_config u d) None),
           w\<lparr>sent := sent w @ [(Axios, axios_config u d)]\<rparr>)
      | Reply r \<Rightarrow>
          if 200 \<le> status r \<and> status r < 300
          then (Inr r, w\<lparr>sent := sent w @ [(Axios, axios_config u d)]\<rparr>)
          else (Inl (AxiosError (axios_config u d) (Some r)),
                w\<lparr>sent := sent w @ [(Axios, axios_config u d)]\<rparr>))"
  by (simp add: axios_post_def dispatch_def Let_def split: reply.splits)

lemma axios_post_rejects:
  assumes "axios_post srv w u d = (Inl err, w')"
  shows "(\<exists>ro. err = AxiosError (axios_config u d) ro)
         \<and> w' = w\<lparr>sent := sent w @ [(Axios, axios_config u d)]\<rparr>"
  using assms by (auto simp: axios_post_result split: reply.splits if_splits)

text \<open>The refresh call succeeds and its body yields a token: store, header, retry.\<close>

lemma response_rejected_refresh_success:
  assumes "\<not> retry c" "status resp = 401"
    and "srv (length (sent w))
           (axios_config ''/api/auth/refresh''
              (refresh_token_body (getItem (localStorage w) ''refresh_token''))) = Reply r"
    and "200 \<le> status r" "status r < 300"
    and "destructure_access_token (rdata r) = Inr v"
  shows "response_rejected srv w (AxiosError c (Some resp)) =
           api srv
             (w\<lparr>sent := sent w @
                    [(Axios, axios_config ''/api/auth/refresh''
                        (refresh_token_body (getItem (localStorage w) ''refresh_token'')))],
                localStorage := setItem (localStorage w) ''access_token'' (js_string v)\<rparr>)
             (c\<lparr>retry := True,
                headers := AList.update ''Authorization'' (''Bearer '' @ js_string v) (headers c)\<rparr>)"
  using assms by (simp add: Let_def axios_post_result)

text \<open>The request interceptor leaves the request as the response interceptor made it.\<close>

lemma request_interceptor_after_refresh:
  assumes "getItem (localStorage w) ''access_token'' = Some tok"
    and "headers c = AList.update ''Authorization'' (''Bearer '' @ tok) hs"
  shows "request_interceptor w c = c"
  using assms by (simp add: request_interceptor_def)

subsection \<open>Refresh, retry and the bearer header\<close>

text \<open>
  C1. One call of the instance puts at most one refresh call (the only request of this
  module sent with the global \<^verbatim>\<open>axios\<close>) and at most two dispatches of the request
  (the original and one retry) on the network, whatever the backend answers, so also when
  it answers 401 to everything. A request whose \<open>retry\<close> marker is set and that receives
  a 401 is rejected with that error: the response interceptor sends nothing, and the call
  of the instance has sent one request and no refresh call.
\<close>

theorem C1_one_refresh_one_retry:
  "sent_by Axios (snd (api srv w c)) \<le> sent_by Axios w + 1
   \<and> sent_by Api (snd (api srv w c)) \<le> sent_by Api w + 2
   \<and> (retry c \<and> status resp = 401 \<longrightarrow>
        response_rejected srv w (AxiosError c (Some resp)) = (Inl (AxiosError c (Some resp)), w))
   \<and> (retry c \<and> srv (length (sent w)) (request_interceptor w c) = Reply resp \<and> status resp = 401 \<longrightarrow>
        fst (api srv w c) = Inl (AxiosError (request_interceptor w c) (Some resp))
        \<and> sent_by Axios (snd (api srv w c)) = sent_by Axios w
        \<and> sent_by Api (snd (api srv w c)) = sent_by Api w + 1)"
proof -
  have counts: "sent_by Axios (snd (api srv w c)) \<le> sent_by Axios w + 1
      \<and> sent_by Api (snd (api srv w c)) \<le> sent_by Api w + 2"
  proof (cases "srv (length (sent w)) (request_interceptor w c)")
    case NetworkError
    then show ?thesis by (simp add: api_unfold sent_by_append)
  next
    case (Reply r)
    show ?thesis
    proof (cases "200 \<le> status r \<and> status r < 300")
      case True
      with Reply show ?thesis by (simp add: api_unfold sent_by_append)
    next
      case False
      let ?w1 = "w\<lparr>sent := sent w @ [(Api, request_interceptor w c)]\<rparr>"
      let ?e = "AxiosError (request_interceptor w c) (Some r)"
      from Reply False have "api srv w c = response_rejected srv ?w1 ?e"
        by (simp add: api_unfold)
      with sent_by_response_rejected [of srv ?w1 ?e] show ?thesis
        by (simp add: sent_by_append)
    qed
  qed
  have marked: "retry c \<and> status resp = 401 \<longrightarrow>
      response_rejected srv w (AxiosError c (Some resp)) = (Inl (AxiosError c (Some resp)), w)"
    by simp
  have again: "retry c \<and> srv (length (sent w)) (request_interceptor w c) = Reply resp \<and> status resp = 401 \<longrightarrow>
        fst (api srv w c) = Inl (AxiosError (request_interceptor w c) (Some resp))
        \<and> sent_by Axios (snd (api srv w c)) = sent_by Axios w
        \<and> sent_by Api (snd (api srv w c)) = sent_by Api w + 1"
    by (simp add: api_retried sent_by_append)
  from counts marked again show ?thesis by blast
qed

text \<open>
  On a logged-in browser, against a backend that answers 401 to the request, accepts the
  refresh and answers 401 again: one refresh call, two dispatches, the second 401 is the
  result; and the marked request alone, answered 401, is rejected at once.
\<close>

theorem C1_one_refresh_one_retry_witness:
  "retry (summarize_request None\<lparr>retry := True\<rparr>) \<and> status unauthorized = 401
   \<and> scripted [Reply unauthorized] (length (sent logged_in))
        (request_interceptor logged_in (summarize_request None\<lparr>retry := True\<rparr>)) = Reply unauthorized
   \<and> response_rejected (scripted [Reply unauthorized]) logged_in
        (AxiosError (summarize_request None\<lparr>retry := True\<rparr>) (Some unauthorized))
      = (Inl (AxiosError (summarize_request None\<lparr>retry := True\<rparr>) (Some unauthorized)), logged_in)
   \<and> sent_by Axios (snd (api (scripted [Reply unauthorized]) logged_in
        (summarize_request None\<lparr>retry := True\<rparr>))) = 0
   \<and> sent_by Api (snd (api (scripted [Reply unauthorized]) logged_in
        (summarize_request None\<lparr>retry := True\<rparr>))) = 1"
proof -
  have h: "retry (summarize_request None\<lparr>retry := True\<rparr>) \<and> status unauthorized = 401"
    by (simp add: unauthorized_def)
  have r: "scripted [Reply unauthorized] (length (sent logged_in))
        (request_interceptor logged_in (summarize_request None\<lparr>retry := True\<rparr>)) = Reply unauthorized"
    by (simp add: scripted_def logged_in_def)
  have z: "sent_by Axios logged_in = 0 \<and> sent_by Api logged_in = 0"
    by (simp add: sent_by_def logged_in_def)
  show ?thesis
    using h r z
      C1_one_refresh_one_retry [of "scripted [Reply unauthorized]" logged_in
        "summarize_request None\<lparr>retry := True\<rparr>" unauthorized]
    by simp
qed

text \<open>
  C2 (as amended). When a request not yet retried receives a 401 and the store holds no
  refresh token, the client still sends the refresh call, once, with the body
  \<^verbatim>\<open>{ refresh_token: null }\<close>. When that call fails, the caller gets the error of the
  refresh call, the store holds neither token and the location is \<^verbatim>\<open>/login\<close>.
\<close>

theorem C2_refresh_sent_without_token:
  assumes "\<not> retry c" and "getItem (localStorage w) ''refresh_token'' = None"
    and "srv (length (sent w)) (request_interceptor w c) = Reply resp" and "status resp = 401"
  shows "sent_by Axios (snd (api srv w c)) = sent_by Axios w + 1
    \<and> take 2 (drop (length (sent w)) (sent (snd (api srv w c)))) =
         [(Api, request_interceptor w c),
          (Axios, axios_config ''/api/auth/refresh'' (JObj [(''refresh_token'', JNull)]))]
    \<and> (srv (Suc (length (sent w)))
           (axios_config ''/api/auth/refresh'' (JObj [(''refresh_token'', JNull)])) = NetworkError \<longrightarrow>
         fst (api srv w c) =
           Inl (AxiosError (axios_config ''/api/auth/refresh'' (JObj [(''refresh_token'', JNull)])) None)
         \<and> getItem (localStorage (snd (api srv w c))) ''access_token'' = None
         \<and> getItem (localStorage (snd (api srv w c))) ''refresh_token'' = None
         \<and> location_href (snd (api srv w c)) = ''/login'')
    \<and> (\<forall>r. srv (Suc (length (sent w)))
              (axios_config ''/api/auth/refresh'' (JObj [(''refresh_token'', JNull)])) = Reply r
            \<and> \<not> (200 \<le> status r \<and> status r < 300) \<longrightarrow>
         fst (api srv w c) =
           Inl (AxiosError (axios_config ''/api/auth/refresh'' (JObj [(''refresh_token'', JNull)]))
                  (Some r))
         \<and> getItem (localStorage (snd (api srv w c))) ''access_token'' = None
         \<and> getItem (localStorage (snd (api srv w c))) ''refresh_token'' = None
         \<and> location_href (snd (api srv w c)) = ''/login'')"
proof -
  let ?c1 = "request_interceptor w c"
  let ?w1 = "w\<lparr>sent := sent w @ [(Api, ?c1)]\<rparr>"
  let ?b = "JObj [(''refresh_token'', JNull)]"
  let ?rc = "axios_config ''/api/auth/refresh'' ?b"
  let ?w2 = "?w1\<lparr>sent := sent ?w1 @ [(Axios, ?rc)]\<rparr>"
  have body: "refresh_token_body (getItem (localStorage w) ''refresh_token'') = ?b"
    using assms(2) by (simp add: refresh_token_body_def)
  have run: "api srv w c = response_rejected srv ?w1 (AxiosError ?c1 (Some resp))"
    using assms(3,4) by (rule api_first_401)
  have nr: "\<not> retry ?c1"
    using assms(1) by (simp add: retry_request_interceptor)
  have fail: "api srv w c = refresh_failed ?w2 err"
    if "axios_post srv ?w1 ''/api/auth/refresh'' ?b = (Inl err, ?w2)" for err
    using response_rejected_refresh_failure [of ?c1 resp srv ?w1 err ?w2] nr assms(4) that body run
    by simp
  have post: "axios_post srv ?w1 ''/api/auth/refresh'' ?b =
     (case srv (Suc (length (sent w))) ?rc of
        NetworkError \<Rightarrow> (Inl (AxiosError ?rc None), ?w2)
      | Reply r \<Rightarrow>
          if 200 \<le> status r \<and> status r < 300 then (Inr r, ?w2)
          else (Inl (AxiosError ?rc (Some r)), ?w2))"
    by (simp add: axios_post_result)
  have sent_cases: "sent (snd (api srv w c)) = sent ?w2
      \<or> (\<exists>c2. sent (snd (api srv w c)) = sent ?w2 @ [(Api, c2)])"
  proof (cases "srv (Suc (length (sent w))) ?rc")
    case NetworkError
    with post fail show ?thesis by (simp add: sent_refresh_failed)
  next
    case (Reply r)
    show ?thesis
    proof (cases "200 \<le> status r \<and> status r < 300")
      case False
      with Reply post fail show ?thesis by (simp add: sent_refresh_failed)
    next
      case True
      show ?thesis
      proof (cases "destructure_access_token (rdata r)")
        case (Inl e)
        with Reply True run nr assms(4) body post show ?thesis
          by (simp add: Let_def sent_refresh_failed)
      next
        case (Inr v)
        have "response_rejected srv ?w1 (AxiosError ?c1 (Some resp)) =
           api srv
             (?w1\<lparr>sent := sent ?w1 @ [(Axios, ?rc)],
                localStorage := setItem (localStorage ?w1) ''access_token'' (js_string v)\<rparr>)
             (?c1\<lparr>retry := True,
                headers := AList.update ''Authorization'' (''Bearer '' @ js_string v) (headers ?c1)\<rparr>)"
          using response_rejected_refresh_success [of ?c1 resp srv ?w1 r v]
            nr assms(4) Reply True Inr body
          by simp
        with run show ?thesis
          by (simp add: sent_api_retried)
      qed
    qed
  qed
  have one: "sent_by Axios (snd (api srv w c)) = sent_by Axios w + 1"
    using sent_cases by (auto simp: sent_by_def)
  have two: "take 2 (drop (length (sent w)) (sent (snd (api srv w c)))) = [(Api, ?c1), (Axios, ?rc)]"
    using sent_cases by auto
  have net: "srv (Suc (length (sent w))) ?rc = NetworkError \<longrightarrow>
         fst (api srv w c) = Inl (AxiosError ?rc None)
         \<and> getItem (localStorage (snd (api srv w c))) ''access_token'' = None
         \<and> getItem (localStorage (snd (api srv w c))) ''refresh_token'' = None
         \<and> location_href (snd (api srv w c)) = ''/login''"
    using post fail by (simp add: refresh_failed_def getItem_def removeItem_def)
  have rej: "\<forall>r. srv (Suc (length (sent w))) ?rc = Reply r
            \<and> \<not> (200 \<le> status r \<and> status r < 300) \<longrightarrow>
         fst (api srv w c) = Inl (AxiosError ?rc (Some r))
         \<and> getItem (localStorage (snd (api srv w c))) ''access_token'' = None
         \<and> getItem (localStorage (snd (api srv w c))) ''refresh_token'' = None
         \<and> location_href (snd (api srv w c)) = ''/login''"
    using post fail by (simp add: refresh_failed_def getItem_def removeItem_def)
  from one two net rej show ?thesis by blast
qed

text \<open>
  A browser that holds an access token and no refresh token, a 401 for the request and a
  403 for the refresh call.
\<close>

theorem C2_refresh_sent_without_token_witness:
  "\<not> retry (summarize_request None)
   \<and> getItem (localStorage no_refresh_token) ''refresh_token'' = None
   \<and> scripted [Reply unauthorized, Reply forbidden] (length (sent no_refresh_token))
        (request_interceptor no_refresh_token (summarize_request None)) = Reply unauthorized
   \<and> status unauthorized = 401
   \<and> sent_by Axios (snd (api (scripted [Reply unauthorized, Reply forbidden]) no_refresh_token
         (summarize_request None))) = 1
   \<and> fst (api (scripted [Reply unauthorized, Reply forbidden]) no_refresh_token
         (summarize_request None))
       = Inl (AxiosError (axios_config ''/api/auth/refresh'' (JObj [(''refresh_token'', JNull)]))
                (Some forbidden))
   \<and> getItem (localStorage (snd (api (scripted [Reply unauthorized, Reply forbidden])
         no_refresh_token (summarize_request None)))) ''access_token'' = None
   \<and> location_href (snd (api (scripted [Reply unauthorized, Reply forbidden])
         no_refresh_token (summarize_request None))) = ''/login''"
proof -
  let ?srv = "scripted [Reply unauthorized, Reply forbidden]"
  let ?c = "summarize_request None"
  let ?rc = "axios_config ''/api/auth/refresh'' (JObj [(''refresh_token'', JNull)])"
  have h1: "\<not> retry ?c"
    by (simp add: summarize_request_def api_config_def)
  have h2: "getItem (localStorage no_refresh_token) ''refresh_token'' = None"
    by (simp add: getItem_def no_refresh_token_def)
  have h3: "?srv (length (sent no_refresh_token)) (request_interceptor no_refresh_token ?c)
              = Reply unauthorized"
    by (simp add: scripted_def no_refresh_token_def)
  have h4: "status unauthorized = 401"
    by (simp add: unauthorized_def)
  have r: "?srv (Suc (length (sent no_refresh_token))) ?rc = Reply forbidden
           \<and> \<not> (200 \<le> status forbidden \<and> status forbidden < 300)"
    by (simp add: scripted_def no_refresh_token_def forbidden_def)
  have z: "sent_by Axios no_refresh_token = 0"
    by (simp add: sent_by_def no_refresh_token_def)
  from C2_refresh_sent_without_token
         [where srv = ?srv and w = no_refresh_token and c = ?c and resp = unauthorized,
          OF h1 h2 h3 h4]
       r z h1 h2 h3 h4
  show ?thesis by simp
qed

text \<open>
  As stated, C2 has no refresh call sent and the original 401 propagated. In the scenario
  above one refresh call is on the network, second in line, and the caller gets its 403.
\<close>

theorem C2_counterexample:
  "getItem (localStorage no_refresh_token) ''refresh_token'' = None
   \<and> sent_by Axios (snd (api (scripted [Reply unauthorized, Reply forbidden]) no_refresh_token
         (summarize_request None))) = 1
   \<and> sent (snd (api (scripted [Reply unauthorized, Reply forbidden]) no_refresh_token
         (summarize_request None))) ! 1
       = (Axios, axios_config ''/api/auth/refresh'' (JObj [(''refresh_token'', JNull)]))
   \<and> fst (api (scripted [Reply unauthorized, Reply forbidden]) no_refresh_token
         (summarize_request None))
       \<noteq> Inl (AxiosError (request_interceptor no_refresh_token (summarize_request None))
                (Some unauthorized))"
  by (simp add: api_unfold scripted_def no_refresh_token_def summarize_request_def api_config_def
        api_baseURL_def request_interceptor_def getItem_def unauthorized_def forbidden_def
        axios_post_result axios_config_def refresh_token_body_def refresh_failed_def Let_def
        sent_by_def)

text \<open>
  C3 (as amended). When the refresh call issued after a first 401 fails, the client
  removes both tokens from the store, sets the location to \<^verbatim>\<open>/login\<close>, and rejects
  with the error of the refresh call: an axios error whose configuration is that of the
  refresh request.
\<close>

theorem C3_refresh_failure_clears_and_rejects:
  assumes "\<not> retry c"
    and "srv (length (sent w)) (request_interceptor w c) = Reply resp" and "status resp = 401"
    and "axios_post srv (w\<lparr>sent := sent w @ [(Api, request_interceptor w c)]\<rparr>)
           ''/api/auth/refresh''
           (refresh_token_body (getItem (localStorage w) ''refresh_token'')) = (Inl err, w')"
  shows "fst (api srv w c) = Inl err
    \<and> (\<exists>ro. err = AxiosError (axios_config ''/api/auth/refresh''
                  (refresh_token_body (getItem (localStorage w) ''refresh_token''))) ro)
    \<and> getItem (localStorage (snd (api srv w c))) ''access_token'' = None
    \<and> getItem (localStorage (snd (api srv w c))) ''refresh_token'' = None
    \<and> location_href (snd (api srv w c)) = ''/login''"
proof -
  let ?w1 = "w\<lparr>sent := sent w @ [(Api, request_interceptor w c)]\<rparr>"
  have "api srv w c = response_rejected srv ?w1 (AxiosError (request_interceptor w c) (Some resp))"
    using assms(2,3) by (rule api_first_401)
  also have "\<dots> = refresh_failed w' err"
    using assms(1,3,4)
    by (intro response_rejected_refresh_failure) (simp_all add: retry_request_interceptor)
  finally have run: "api srv w c = refresh_failed w' err" .
  from axios_post_rejects [OF assms(4)]
  have cfg: "\<exists>ro. err = AxiosError (axios_config ''/api/auth/refresh''
                  (refresh_token_body (getItem (localStorage w) ''refresh_token''))) ro"
    by simp
  from run cfg show ?thesis
    by (simp add: refresh_failed_def getItem_def removeItem_def)
qed

text \<open>
  The logged-in browser, a 401 for the request and a 403 for the refresh call: the caller
  gets the 403 of the refresh request, and the store is empty.
\<close>

theorem C3_refresh_failure_clears_and_rejects_witness:
  "\<not> retry (summarize_request None)
   \<and> scripted [Reply unauthorized, Reply forbidden] (length (sent logged_in))
        (request_interceptor logged_in (summarize_request None)) = Reply unauthorized
   \<and> status unauthorized = 401
   \<and> fst (api (scripted [Reply unauthorized, Reply forbidden]) logged_in (summarize_request None))
       = Inl (AxiosError (axios_config ''/api/auth/refresh'' (JObj [(''refresh_token'', JStr ''r1'')]))
                (Some forbidden))
   \<and> getItem (localStorage (snd (api (scripted [Reply unauthorized, Reply forbidden]) logged_in
         (summarize_request None)))) ''access_token'' = None
   \<and> getItem (localStorage (snd (api (scripted [Reply unauthorized, Reply forbidden]) logged_in
         (summarize_request None)))) ''refresh_token'' = None
   \<and> location_href (snd (api (scripted [Reply unauthorized, Reply forbidden]) logged_in
         (summarize_request None))) = ''/login''"
proof -
  let ?srv = "scripted [Reply unauthorized, Reply forbidden]"
  let ?c = "summarize_request None"
  let ?rc = "axios_config ''/api/auth/refresh'' (JObj [(''refresh_token'', JStr ''r1'')])"
  have h1: "\<not> retry ?c"
    by (simp add: summarize_request_def api_config_def)
  have h2: "?srv (length (sent logged_in)) (request_interceptor logged_in ?c) = Reply unauthorized"
    by (simp add: scripted_def logged_in_def)
  have h3: "status unauthorized = 401"
    by (simp add: unauthorized_def)
  have tok: "refresh_token_body (getItem (localStorage logged_in) ''refresh_token'')
               = JObj [(''refresh_token'', JStr ''r1'')]"
    by (simp add: refresh_token_body_def getItem_def logged_in_def)
  have h4: "axios_post ?srv (logged_in\<lparr>sent := sent logged_in @ [(Api, request_interceptor logged_in ?c)]\<rparr>)
           ''/api/auth/refresh''
           (refresh_token_body (getItem (localStorage logged_in) ''refresh_token''))
        = (Inl (AxiosError ?rc (Some forbidden)),
           logged_in\<lparr>sent := sent logged_in @ [(Api, request_interceptor logged_in ?c)]
                                 @ [(Axios, ?rc)]\<rparr>)"
    unfolding tok
    by (simp add: axios_post_result scripted_def logged_in_def forbidden_def)
  from C3_refresh_failure_clears_and_rejects [OF h1 h2 h3 h4] h1 h2 h3
  show ?thesis by simp
qed

text \<open>
  As stated, C3 has the error of the original request propagated. In the scenario above
  the caller gets the 403 of the refresh request and not the 401 of its own request.
\<close>

theorem C3_counterexample:
  "fst (api (scripted [Reply unauthorized, Reply forbidden]) logged_in (summarize_request None))
     = Inl (AxiosError (axios_config ''/api/auth/refresh'' (JObj [(''refresh_token'', JStr ''r1'')]))
              (Some forbidden))
   \<and> fst (api (scripted [Reply unauthorized, Reply forbidden]) logged_in (summarize_request None))
     \<noteq> Inl (AxiosError (request_interceptor logged_in (summarize_request None)) (Some unauthorized))"
  by (simp add: api_unfold scripted_def logged_in_def summarize_request_def api_config_def
        api_baseURL_def request_interceptor_def getItem_def unauthorized_def forbidden_def
        axios_post_result axios_config_def refresh_token_body_def refresh_failed_def Let_def)

text \<open>
  C6. When the refresh call after a first 401 succeeds and its body yields the access
  token \<open>v\<close>, the client writes the token (as a string) under \<^verbatim>\<open>access_token\<close>, sets
  the \<^verbatim>\<open>Authorization\<close> header of the original request to \<^verbatim>\<open>Bearer\<close> and that
  token, and sends the original request once more: the network has seen the request, the
  refresh call and the request again, nothing else. The caller gets what the instance
  returns for that second dispatch: the response when it is a 2xx, the error holding the
  response otherwise (and the \<^verbatim>\<open>TypeError\<close> of the interceptor when no response came
  back).
\<close>

theorem C6_refresh_success_retries_once:
  assumes "\<not> retry c"
    and "srv (length (sent w)) (request_interceptor w c) = Reply resp" and "status resp = 401"
    and "srv (Suc (length (sent w)))
           (axios_config ''/api/auth/refresh''
              (refresh_token_body (getItem (localStorage w) ''refresh_token''))) = Reply r"
    and "200 \<le> status r \<and> status r < 300"
    and "destructure_access_token (rdata r) = Inr v"
    and "c2 = request_interceptor w c
                \<lparr>retry := True,
                 headers := AList.update ''Authorization'' (''Bearer '' @ js_string v)
                              (headers (request_interceptor w c))\<rparr>"
  shows "getItem (localStorage (snd (api srv w c))) ''access_token'' = Some (js_string v)
    \<and> map_of (headers c2) ''Authorization'' = Some (''Bearer '' @ js_string v)
    \<and> sent (snd (api srv w c)) =
         sent w @
         [(Api, request_interceptor w c),
          (Axios, axios_config ''/api/auth/refresh''
                    (refresh_token_body (getItem (localStorage w) ''refresh_token''))),
          (Api, c2)]
    \<and> fst (api srv w c) =
         (case srv (Suc (Suc (length (sent w)))) c2 of
            Reply r2 \<Rightarrow>
              if 200 \<le> status r2 \<and> status r2 < 300 then Inr r2
              else Inl (AxiosError c2 (Some r2))
          | NetworkError \<Rightarrow> Inl TypeError)"
proof -
  let ?c1 = "request_interceptor w c"
  let ?w1 = "w\<lparr>sent := sent w @ [(Api, ?c1)]\<rparr>"
  let ?rc = "axios_config ''/api/auth/refresh''
               (refresh_token_body (getItem (localStorage w) ''refresh_token''))"
  let ?w2 = "?w1\<lparr>sent := sent ?w1 @ [(Axios, ?rc)],
                localStorage := setItem (localStorage ?w1) ''access_token'' (js_string v)\<rparr>"
  have c2: "c2 = ?c1\<lparr>retry := True,
                headers := AList.update ''Authorization'' (''Bearer '' @ js_string v) (headers ?c1)\<rparr>"
    by (fact assms(7))
  have "api srv w c = response_rejected srv ?w1 (AxiosError ?c1 (Some resp))"
    using assms(2,3) by (rule api_first_401)
  also have "\<dots> = api srv ?w2 c2"
    using response_rejected_refresh_success [of ?c1 resp srv ?w1 r v] assms(1,3,4,5,6) c2
    by (simp add: retry_request_interceptor)
  finally have run: "api srv w c = api srv ?w2 c2" .
  have same: "request_interceptor ?w2 c2 = c2"
    by (rule request_interceptor_after_refresh [where tok = "js_string v" and hs = "headers ?c1"])
       (simp_all add: c2 getItem_def setItem_def)
  have marked: "retry c2"
    by (simp add: c2)
  have len: "length (sent ?w2) = Suc (Suc (length (sent w)))"
    by simp
  have again: "api srv ?w2 c2 =
     (case srv (Suc (Suc (length (sent w)))) c2 of
        NetworkError \<Rightarrow> (Inl TypeError, ?w2\<lparr>sent := sent ?w2 @ [(Api, c2)]\<rparr>)
      | Reply r2 \<Rightarrow>
          if 200 \<le> status r2 \<and> status r2 < 300
          then (Inr r2, ?w2\<lparr>sent := sent ?w2 @ [(Api, c2)]\<rparr>)
          else (Inl (AxiosError c2 (Some r2)), ?w2\<lparr>sent := sent ?w2 @ [(Api, c2)]\<rparr>))"
    using api_retried [OF marked, of srv ?w2] unfolding same len .
  have store: "getItem (localStorage (snd (api srv w c))) ''access_token'' = Some (js_string v)"
    unfolding run again by (simp add: getItem_def setItem_def split: reply.splits)
  have header: "map_of (headers c2) ''Authorization'' = Some (''Bearer '' @ js_string v)"
    by (simp add: c2 update_conv')
  have net: "sent (snd (api srv w c)) = sent w @ [(Api, ?c1), (Axios, ?rc), (Api, c2)]"
    unfolding run again by (simp split: reply.splits)
  have res: "fst (api srv w c) =
         (case srv (Suc (Suc (length (sent w)))) c2 of
            Reply r2 \<Rightarrow>
              if 200 \<le> status r2 \<and> status r2 < 300 then Inr r2
              else Inl (AxiosError c2 (Some r2))
          | NetworkError \<Rightarrow> Inl TypeError)"
    unfolding run again by (simp split: reply.splits)
  from store header net res show ?thesis by blast
qed

text \<open>
  The logged-in browser: a 401 for the request, a refresh that
  returns the token \<^verbatim>\<open>a2\<close>, and the summary for the second dispatch.
\<close>

theorem C6_refresh_success_retries_once_witness:
  "\<not> retry (summarize_request None)
   \<and> scripted [Reply unauthorized, Reply refreshed, Reply summarized] (length (sent logged_in))
        (request_interceptor logged_in (summarize_request None)) = Reply unauthorized
   \<and> status unauthorized = 401
   \<and> scripted [Reply unauthorized, Reply refreshed, Reply summarized] (Suc (length (sent logged_in)))
        (axios_config ''/api/auth/refresh''
           (refresh_token_body (getItem (localStorage logged_in) ''refresh_token''))) = Reply refreshed
   \<and> (200 \<le> status refreshed \<and> status refreshed < 300)
   \<and> destructure_access_token (rdata refreshed) = Inr (JStr ''a2'')
   \<and> getItem (localStorage (snd (api (scripted [Reply unauthorized, Reply refreshed, Reply summarized])
         logged_in (summarize_request None)))) ''access_token'' = Some ''a2''
   \<and> length (sent (snd (api (scripted [Reply unauthorized, Reply refreshed, Reply summarized])
         logged_in (summarize_request None)))) = 3
   \<and> map_of (headers (snd (sent (snd (api (scripted [Reply unauthorized, Reply refreshed, Reply summarized])
         logged_in (summarize_request None))) ! 2))) ''Authorization'' = Some ''Bearer a2''
   \<and> fst (api (scripted [Reply unauthorized, Reply refreshed, Reply summarized]) logged_in
         (summarize_request None)) = Inr summarized"
proof -
  let ?srv = "scripted [Reply unauthorized, Reply refreshed, Reply summarized]"
  let ?c = "summarize_request None"
  let ?c1 = "request_interceptor logged_in ?c"
  let ?c2 = "?c1\<lparr>retry := True,
                headers := AList.update ''Authorization'' (''Bearer '' @ js_string (JStr ''a2''))
                             (headers ?c1)\<rparr>"
  have h1: "\<not> retry ?c"
    by (simp add: summarize_request_def api_config_def)
  have h2: "?srv (length (sent logged_in)) ?c1 = Reply unauthorized"
    by (simp add: scripted_def logged_in_def)
  have h3: "status unauthorized = 401"
    by (simp add: unauthorized_def)
  have h4: "?srv (Suc (length (sent logged_in)))
        (axios_config ''/api/auth/refresh''
           (refresh_token_body (getItem (localStorage logged_in) ''refresh_token''))) = Reply refreshed"
    by (simp add: scripted_def logged_in_def)
  have h5: "200 \<le> status refreshed \<and> status refreshed < 300"
    by (simp add: refreshed_def)
  have h6: "destructure_access_token (rdata refreshed) = Inr (JStr ''a2'')"
    by (simp add: refreshed_def)
  have r: "?srv (Suc (Suc (length (sent logged_in)))) ?c2 = Reply summarized
           \<and> 200 \<le> status summarized \<and> status summarized < 300"
    by (simp add: scripted_def logged_in_def summarized_def)
  have z: "sent logged_in = []"
    by (simp add: logged_in_def)
  from C6_refresh_success_retries_once
         [where srv = ?srv and w = logged_in and c = ?c and resp = unauthorized
            and r = refreshed and v = "JStr ''a2''" and ?c2.0 = ?c2,
          OF h1 h2 h3 h4 h5 h6 refl]
       r z h1 h2 h3 h4 h5 h6
  show ?thesis by simp
qed

text \<open>
  C7 (as amended). The first request a call of the instance puts on the network is the
  output of the request interceptor. When the store holds no access token, or holds the
  empty string, the interceptor returns the request as it is, and a request built by
  \<^verbatim>\<open>api.get\<close> or \<^verbatim>\<open>api.post\<close> has no \<^verbatim>\<open>Authorization\<close> header. When the store
  holds a non-empty access token, the request carries \<^verbatim>\<open>Authorization: Bearer\<close> and
  that token.
\<close>

theorem C7_bearer_header:
  "take 1 (drop (length (sent w)) (sent (snd (api srv w c)))) = [(Api, request_interceptor w c)]
   \<and> (getItem (localStorage w) ''access_token'' = None \<longrightarrow> request_interceptor w c = c)
   \<and> (getItem (localStorage w) ''access_token'' = Some [] \<longrightarrow> request_interceptor w c = c)
   \<and> (getItem (localStorage w) ''access_token'' = Some token \<and> token \<noteq> [] \<longrightarrow>
        map_of (headers (request_interceptor w c)) ''Authorization'' = Some (''Bearer '' @ token))
   \<and> map_of (headers (api_config env m u d)) ''Authorization'' = None"
proof -
  let ?w1 = "w\<lparr>sent := sent w @ [(Api, request_interceptor w c)]\<rparr>"
  have first: "take 1 (drop (length (sent w)) (sent (snd (api srv w c))))
                 = [(Api, request_interceptor w c)]"
  proof (cases "srv (length (sent w)) (request_interceptor w c)")
    case NetworkError
    then show ?thesis by (simp add: api_unfold)
  next
    case (Reply r)
    show ?thesis
    proof (cases "200 \<le> status r \<and> status r < 300")
      case True
      with Reply show ?thesis by (simp add: api_unfold)
    next
      case False
      with Reply have "api srv w c =
          response_rejected srv ?w1 (AxiosError (request_interceptor w c) (Some r))"
        by (simp add: api_unfold)
      with sent_response_rejected [of srv ?w1 "AxiosError (request_interceptor w c) (Some r)"]
      show ?thesis by auto
    qed
  qed
  have rest: "(getItem (localStorage w) ''access_token'' = None \<longrightarrow> request_interceptor w c = c)
   \<and> (getItem (localStorage w) ''access_token'' = Some [] \<longrightarrow> request_interceptor w c = c)
   \<and> (getItem (localStorage w) ''access_token'' = Some token \<and> token \<noteq> [] \<longrightarrow>
        map_of (headers (request_interceptor w c)) ''Authorization'' = Some (''Bearer '' @ token))
   \<and> map_of (headers (api_config env m u d)) ''Authorization'' = None"
    by (simp add: request_interceptor_def update_conv' api_config_def)
  from first rest show ?thesis by blast
qed

text \<open>The logged-in browser sends its token; the logged-out browser sends no header.\<close>

theorem C7_bearer_header_witness:
  "getItem (localStorage logged_in) ''access_token'' = Some ''a1'' \<and> ''a1'' \<noteq> []
   \<and> map_of (headers (request_interceptor logged_in (summarize_request None))) ''Authorization''
       = Some ''Bearer a1''
   \<and> getItem (localStorage logged_out) ''access_token'' = None
   \<and> map_of (headers (request_interceptor logged_out (summarize_request None))) ''Authorization''
       = None
   \<and> getItem (localStorage empty_access_token) ''access_token'' = Some []
   \<and> request_interceptor empty_access_token (summarize_request None) = summarize_request None"
proof -
  have h1: "getItem (localStorage logged_in) ''access_token'' = Some ''a1'' \<and> ''a1'' \<noteq> []"
    by (simp add: getItem_def logged_in_def)
  have h2: "getItem (localStorage logged_out) ''access_token'' = None"
    by (simp add: getItem_def logged_out_def)
  have h3: "getItem (localStorage empty_access_token) ''access_token'' = Some []"
    by (simp add: getItem_def empty_access_token_def)
  from C7_bearer_header [of logged_in "scripted []" "summarize_request None" "''a1''"
         None POST "''/api/email/summarize''"
         "JObj [(''content'', JStr ''Test Content''), (''subject'', JStr ''Test Subject'')]"]
       C7_bearer_header [of logged_out "scripted []" "summarize_request None" "''a1''"]
       C7_bearer_header [of empty_access_token "scripted []" "summarize_request None" "''a1''"]
       h1 h2 h3
  show ?thesis by (simp add: summarize_request_def)
qed

text \<open>
  As stated, C7 has the header on every request sent while an access token is stored.
  The store of this browser holds the empty string under \<^verbatim>\<open>access_token\<close>, which the
  interceptor's test \<^verbatim>\<open>if (token)\<close> takes as absent: the request on the network has no
  \<^verbatim>\<open>Authorization\<close> header.
\<close>

theorem C7_counterexample:
  "getItem (localStorage empty_access_token) ''access_token'' = Some ''''
   \<and> sent (snd (api (scripted [Reply summarized]) empty_access_token (summarize_request None)))
       = [(Api, summarize_request None)]
   \<and> map_of (headers (summarize_request None)) ''Authorization'' = None
   \<and> map_of (headers (summarize_request None)) ''Authorization'' \<noteq> Some (''Bearer '' @ '''')"
  by (simp add: api_unfold scripted_def empty_access_token_def summarize_request_def api_config_def
        request_interceptor_def getItem_def summarized_def)

text \<open>
  C9. The response interceptor reads \<^verbatim>\<open>error.response.status\<close> before anything else.
  On an error without a response it throws a \<^verbatim>\<open>TypeError\<close> and touches nothing; so a
  call of the instance whose request meets a transport failure is rejected with the
  \<^verbatim>\<open>TypeError\<close>, not with the axios error of the transport failure.
\<close>

theorem C9_no_response_is_a_type_error:
  "response_rejected srv w (AxiosError c None) = (Inl TypeError, w)
   \<and> (srv (length (sent w)) (request_interceptor w c) = NetworkError \<longrightarrow>
        dispatch srv Api w (request_interceptor w c) =
          (Inl (AxiosError (request_interceptor w c) None),
           w\<lparr>sent := sent w @ [(Api, request_interceptor w c)]\<rparr>)
        \<and> api srv w c = (Inl TypeError, w\<lparr>sent := sent w @ [(Api, request_interceptor w c)]\<rparr>)
        \<and> fst (api srv w c) \<noteq> Inl (AxiosError (request_interceptor w c) None))"
  by (simp add: api_unfold dispatch_def)

text \<open>The logged-in browser and a backend that never answers.\<close>

theorem C9_no_response_is_a_type_error_witness:
  "scripted [] (length (sent logged_in)) (request_interceptor logged_in (summarize_request None))
     = NetworkError
   \<and> fst (api (scripted []) logged_in (summarize_request None)) = Inl TypeError
   \<and> localStorage (snd (api (scripted []) logged_in (summarize_request None)))
       = localStorage logged_in"
proof -
  have h: "scripted [] (length (sent logged_in))
             (request_interceptor logged_in (summarize_request None)) = NetworkError"
    by (simp add: scripted_def)
  from C9_no_response_is_a_type_error [of "scripted []" logged_in "summarize_request None"] h
  show ?thesis by simp
qed

text \<open>
  C5. With \<^verbatim>\<open>REACT_APP_API_URL\<close> set, on the logged-in browser: a 401 for the request, a
  successful refresh, the summary for the retry. The request goes out under the configured
  base URL both times; the refresh call between them is a POST of
  \<^verbatim>\<open>{ refresh_token: 'r1' }\<close> to \<^verbatim>\<open>/api/auth/refresh\<close> made with the global \<^verbatim>\<open>axios\<close>
  and has no base URL at all.
\<close>

theorem C5_refresh_call_without_base_url:
  "map (\<lambda>(inst, c). (inst, baseURL c, meth c, url c))
     (sent (snd (api (scripted [Reply unauthorized, Reply refreshed, Reply summarized]) logged_in
        (summarize_request (Some ''https://api.example.com'')))))
   = [(Api, Some ''https://api.example.com'', POST, ''/api/email/summarize''),
      (Axios, None, POST, ''/api/auth/refresh''),
      (Api, Some ''https://api.example.com'', POST, ''/api/email/summarize'')]
   \<and> data (snd (sent (snd (api (scripted [Reply unauthorized, Reply refreshed, Reply summarized])
        logged_in (summarize_request (Some ''https://api.example.com'')))) ! 1))
     = JObj [(''refresh_token'', JStr ''r1'')]"
  by (simp add: api_unfold scripted_def logged_in_def summarize_request_def api_config_def
        api_baseURL_def request_interceptor_def getItem_def setItem_def unauthorized_def
        refreshed_def summarized_def axios_post_result axios_config_def refresh_token_body_def
        Let_def)

subsection \<open>Logout\<close>

lemma localStorage_api_no_401:
  assumes "srv (length (sent w)) (request_interceptor w c) = NetworkError
           \<or> (\<exists>r. srv (length (sent w)) (request_interceptor w c) = Reply r \<and> status r \<noteq> 401)"
  shows "localStorage (snd (api srv w c)) = localStorage w"
  using assms by (auto simp: api_unfold)

text \<open>
  C4 (as amended). After a call of \<^verbatim>\<open>logout\<close> that returns, the store holds neither
  token. When the logout request is rejected, \<^verbatim>\<open>logout\<close> throws the error of the client
  and removes nothing itself: the browser is as the client left it, and after a transport
  failure or a status other than 2xx and 401 the store is what it was before the call.
\<close>

theorem C4_logout_clears_on_success:
  "(fst (auth_logout env srv w) = Inr () \<longrightarrow>
      getItem (localStorage (snd (auth_logout env srv w))) ''access_token'' = None
      \<and> getItem (localStorage (snd (auth_logout env srv w))) ''refresh_token'' = None)
   \<and> (api_post env srv w ''/api/auth/logout''
         (refresh_token_body (getItem (localStorage w) ''refresh_token'')) = (Inl err, w1) \<longrightarrow>
       auth_logout env srv w = (Inl err, w1))
   \<and> (srv (length (sent w))
         (request_interceptor w (api_config env POST ''/api/auth/logout''
            (refresh_token_body (getItem (localStorage w) ''refresh_token'')))) = NetworkError
       \<or> (\<exists>r. srv (length (sent w))
              (request_interceptor w (api_config env POST ''/api/auth/logout''
                 (refresh_token_body (getItem (localStorage w) ''refresh_token'')))) = Reply r
            \<and> \<not> (200 \<le> status r \<and> status r < 300) \<and> status r \<noteq> 401) \<longrightarrow>
       isl (fst (auth_logout env srv w))
       \<and> localStorage (snd (auth_logout env srv w)) = localStorage w)"
proof -
  let ?c = "api_config env POST ''/api/auth/logout''
              (refresh_token_body (getItem (localStorage w) ''refresh_token''))"
  have ok: "fst (auth_logout env srv w) = Inr () \<longrightarrow>
      getItem (localStorage (snd (auth_logout env srv w))) ''access_token'' = None
      \<and> getItem (localStorage (snd (auth_logout env srv w))) ''refresh_token'' = None"
    by (simp add: auth_logout_def Let_def getItem_def removeItem_def split: prod.splits sum.splits)
  have thrown: "api_post env srv w ''/api/auth/logout''
         (refresh_token_body (getItem (localStorage w) ''refresh_token'')) = (Inl err, w1) \<longrightarrow>
       auth_logout env srv w = (Inl err, w1)"
    by (simp add: auth_logout_def Let_def)
  have kept: "isl (fst (auth_logout env srv w))
       \<and> localStorage (snd (auth_logout env srv w)) = localStorage w"
    if "srv (length (sent w)) (request_interceptor w ?c) = NetworkError
       \<or> (\<exists>r. srv (length (sent w)) (request_interceptor w ?c) = Reply r
            \<and> \<not> (200 \<le> status r \<and> status r < 300) \<and> status r \<noteq> 401)"
  proof -
    from that have "isl (fst (api srv w ?c))"
      by (auto simp: api_unfold)
    moreover from that have "localStorage (snd (api srv w ?c)) = localStorage w"
      by (intro localStorage_api_no_401) auto
    ultimately show ?thesis
      by (auto simp: auth_logout_def api_post_def Let_def split: prod.splits sum.splits)
  qed
  from ok thrown kept show ?thesis by blast
qed

text \<open>
  The logged-in browser: a logout the backend acknowledges, and a logout the backend
  answers with a 500.
\<close>

theorem C4_logout_clears_on_success_witness:
  "fst (auth_logout None (scripted [Reply acknowledged]) logged_in) = Inr ()
   \<and> getItem (localStorage (snd (auth_logout None (scripted [Reply acknowledged]) logged_in)))
        ''access_token'' = None
   \<and> getItem (localStorage (snd (auth_logout None (scripted [Reply acknowledged]) logged_in)))
        ''refresh_token'' = None
   \<and> scripted [Reply server_error] (length (sent logged_in))
        (request_interceptor logged_in (api_config None POST ''/api/auth/logout''
           (refresh_token_body (getItem (localStorage logged_in) ''refresh_token''))))
       = Reply server_error
   \<and> \<not> (200 \<le> status server_error \<and> status server_error < 300) \<and> status server_error \<noteq> 401
   \<and> isl (fst (auth_logout None (scripted [Reply server_error]) logged_in))
   \<and> localStorage (snd (auth_logout None (scripted [Reply server_error]) logged_in))
       = localStorage logged_in"
proof -
  have h1: "fst (auth_logout None (scripted [Reply acknowledged]) logged_in) = Inr ()"
    by (simp add: auth_logout_def api_post_def api_unfold scripted_def logged_in_def
          acknowledged_def Let_def)
  have h2: "scripted [Reply server_error] (length (sent logged_in))
        (request_interceptor logged_in (api_config None POST ''/api/auth/logout''
           (refresh_token_body (getItem (localStorage logged_in) ''refresh_token''))))
       = Reply server_error
     \<and> \<not> (200 \<le> status server_error \<and> status server_error < 300) \<and> status server_error \<noteq> 401"
    by (simp add: scripted_def logged_in_def server_error_def)
  from C4_logout_clears_on_success [of None "scripted [Reply acknowledged]" logged_in]
       C4_logout_clears_on_success [of None "scripted [Reply server_error]" logged_in]
       h1 h2
  show ?thesis by blast
qed

text \<open>
  As stated, C4 has both tokens absent also after a logout whose request failed. On the
  logged-in browser, with a 500 for the logout request, \<^verbatim>\<open>logout\<close> throws the error of
  that request and both tokens are still in the store.
\<close>

theorem C4_counterexample:
  "fst (auth_logout None (scripted [Reply server_error]) logged_in)
     = Inl (AxiosError
              (request_interceptor logged_in (api_config None POST ''/api/auth/logout''
                 (JObj [(''refresh_token'', JStr ''r1'')])))
              (Some server_error))
   \<and> getItem (localStorage (snd (auth_logout None (scripted [Reply server_error]) logged_in)))
        ''access_token'' = Some ''a1''
   \<and> getItem (localStorage (snd (auth_logout None (scripted [Reply server_error]) logged_in)))
        ''refresh_token'' = Some ''r1''"
  by (simp add: auth_logout_def api_post_def api_unfold scripted_def logged_in_def
        server_error_def refresh_token_body_def getItem_def Let_def)

section \<open>Properties of the analysis pages\<close>

lemma promise_all_rejected: "\<exists>x\<in>set ps. isl x \<Longrightarrow> isl (promise_all ps)"
  by (induction ps rule: promise_all.induct) (auto split: sum.splits)

text \<open>A batch with a rejection: the \<^verbatim>\<open>catch\<close> block and the \<^verbatim>\<open>finally\<close> block.\<close>

lemma EmailAnalysis_handleAnalyze_rejected:
  assumes "isl a \<or> isl b \<or> isl c \<or> isl d \<or> isl e"
  shows "EmailAnalysis_handleAnalyze a b c d e p =
           p\<lparr>loading := False, error := Some ''Failed to analyze email. Please try again.''\<rparr>"
proof -
  from assms have "isl (promise_all [a, b, c, d, e])"
    by (intro promise_all_rejected) auto
  then show ?thesis
    by (auto simp: EmailAnalysis_handleAnalyze_def isl_def)
qed

lemma LifeBalance_handleAnalyze_rejected:
  assumes "isl a \<or> isl b \<or> isl c \<or> isl d"
  shows "LifeBalance_handleAnalyze a b c d p =
           p\<lparr>loading := False,
             error := Some ''Failed to analyze life balance. Please try again.''\<rparr>"
proof -
  from assms have "isl (promise_all [a, b, c, d])"
    by (intro promise_all_rejected) auto
  then show ?thesis
    by (auto simp: LifeBalance_handleAnalyze_def isl_def)
qed

lemma Memory_handleAnalyze_rejected:
  assumes "isl a \<or> isl b \<or> isl c \<or> isl d \<or> isl e \<or> isl f"
  shows "Memory_handleAnalyze a b c d e f p =
           p\<lparr>loading := False,
             error := Some ''Failed to analyze memory and learning. Please try again.''\<rparr>"
proof -
  from assms have "isl (promise_all [a, b, c, d, e, f])"
    by (intro promise_all_rejected) auto
  then show ?thesis
    by (auto simp: Memory_handleAnalyze_def isl_def)
qed

text \<open>A batch without a rejection: the result is built from all the values.\<close>

lemma EmailAnalysis_handleAnalyze_fulfilled:
  "EmailAnalysis_handleAnalyze (Inr a) (Inr b) (Inr c) (Inr d) (Inr e) p =
     p\<lparr>loading := False, error := None,
       result := Some \<lparr>summary = a ''summary'', sentiment = b ''sentiment'',
                       priority = c ''priority'', action_items = d ''action_items'',
                       reply_suggestions = e ''reply_suggestions''\<rparr>\<rparr>"
  by (simp add: EmailAnalysis_handleAnalyze_def)

lemma LifeBalance_handleAnalyze_fulfilled:
  "LifeBalance_handleAnalyze (Inr a) (Inr b) (Inr c) (Inr d) p =
     p\<lparr>loading := False, error := None,
       result := Some \<lparr>balance_score = a ''overall_score'', insights = b ''insights'',
                       recommendations = c ''recommendations'',
                       optimized_schedule = d ''optimized_schedule''\<rparr>\<rparr>"
  by (simp add: LifeBalance_handleAnalyze_def)

lemma Memory_handleAnalyze_fulfilled:
  "Memory_handleAnalyze (Inr a) (Inr b) (Inr c) (Inr d) (Inr e) (Inr f) p =
     p\<lparr>loading := False, error := None,
       result := Some \<lparr>learning_style = a ''learning_style'', performance_metrics = b ''metrics'',
                       study_recommendations = c ''recommendations'',
                       key_concepts = d ''concepts'', review_questions = e ''questions'',
                       knowledge_gaps = f ''gaps''\<rparr>\<rparr>"
  by (simp add: Memory_handleAnalyze_def)

text \<open>
  C8. On each of the three pages, when one of the facade calls of a batch rejects,
  whatever the others settled with, the handler leaves the page as it found it except
  that \<open>loading\<close> is off and \<open>error\<close> is the one fixed message of the page: no value
  of the batch reaches the page state, and what the page shows is that message and the
  result block it had before the batch, none if it had none.
\<close>

theorem C8_one_rejection_fails_the_batch:
  "(isl a \<or> isl b \<or> isl c \<or> isl d \<or> isl e \<longrightarrow>
      EmailAnalysis_handleAnalyze a b c d e p =
        p\<lparr>loading := False, error := Some ''Failed to analyze email. Please try again.''\<rparr>
      \<and> render (EmailAnalysis_handleAnalyze a b c d e p) =
        \<lparr>error_banner = Some ''Failed to analyze email. Please try again.'',
         result_block = result p\<rparr>)
   \<and> (isl a \<or> isl b \<or> isl c \<or> isl d \<longrightarrow>
      LifeBalance_handleAnalyze a b c d q =
        q\<lparr>loading := False, error := Some ''Failed to analyze life balance. Please try again.''\<rparr>
      \<and> render (LifeBalance_handleAnalyze a b c d q) =
        \<lparr>error_banner = Some ''Failed to analyze life balance. Please try again.'',
         result_block = result q\<rparr>)
   \<and> (isl a \<or> isl b \<or> isl c \<or> isl d \<or> isl e \<or> isl f \<longrightarrow>
      Memory_handleAnalyze a b c d e f s =
        s\<lparr>loading := False,
          error := Some ''Failed to analyze memory and learning. Please try again.''\<rparr>
      \<and> render (Memory_handleAnalyze a b c d e f s) =
        \<lparr>error_banner = Some ''Failed to analyze memory and learning. Please try again.'',
         result_block = result s\<rparr>)"
  by (simp add: EmailAnalysis_handleAnalyze_rejected LifeBalance_handleAnalyze_rejected
        Memory_handleAnalyze_rejected render_def)

text \<open>
  On a page just opened, with the first call of the batch rejected and all the others
  resolved: the message, and no result block.
\<close>

theorem C8_one_rejection_fails_the_batch_witness:
  "isl rejected
   \<and> render (EmailAnalysis_handleAnalyze rejected (resolved ''sentiment'' ''positive'')
        (resolved ''priority'' ''high'') (resolved ''action_items'' ''Action 1'')
        (resolved ''reply_suggestions'' ''Reply 1'') initial_page)
     = \<lparr>error_banner = Some ''Failed to analyze email. Please try again.'', result_block = None\<rparr>
   \<and> render (LifeBalance_handleAnalyze rejected (resolved ''insights'' ''Good work-life balance'')
        (resolved ''recommendations'' ''Take more breaks'')
        (resolved ''optimized_schedule'' ''Optimized schedule here'') initial_page)
     = \<lparr>error_banner = Some ''Failed to analyze life balance. Please try again.'',
        result_block = None\<rparr>
   \<and> render (Memory_handleAnalyze rejected (resolved ''metrics'' ''0.85'')
        (resolved ''recommendations'' ''Use more diagrams'') (resolved ''concepts'' ''Derivatives'')
        (resolved ''questions'' ''What is a derivative?'') (resolved ''gaps'' ''Integrals'')
        initial_page)
     = \<lparr>error_banner = Some ''Failed to analyze memory and learning. Please try again.'',
        result_block = None\<rparr>"
proof -
  have h: "isl rejected"
    by (simp add: rejected_def)
  have i: "result (initial_page :: string email_result page) = None"
          "result (initial_page :: string life_balance_result page) = None"
          "result (initial_page :: string memory_result page) = None"
    by (simp_all add: initial_page_def)
  from C8_one_rejection_fails_the_batch
         [of rejected "resolved ''sentiment'' ''positive''" "resolved ''priority'' ''high''"
             "resolved ''action_items'' ''Action 1''" "resolved ''reply_suggestions'' ''Reply 1''"
             initial_page initial_page "resolved ''gaps'' ''Integrals''" initial_page]
       C8_one_rejection_fails_the_batch
         [of rejected "resolved ''insights'' ''Good work-life balance''"
             "resolved ''recommendations'' ''Take more breaks''"
             "resolved ''optimized_schedule'' ''Optimized schedule here''"
             "resolved ''reply_suggestions'' ''Reply 1''"
             initial_page initial_page "resolved ''gaps'' ''Integrals''" initial_page]
       C8_one_rejection_fails_the_batch
         [of rejected "resolved ''metrics'' ''0.85''"
             "resolved ''recommendations'' ''Use more diagrams''"
             "resolved ''concepts'' ''Derivatives''"
             "resolved ''questions'' ''What is a derivative?''"
             initial_page initial_page "resolved ''gaps'' ''Integrals''" initial_page]
       h i
  show ?thesis by (simp add: render_def)
qed

text \<open>
  C10. A failed batch leaves \<open>result\<close> as it was: the handler only sets \<open>error\<close>
  (and \<open>loading\<close>). So when an earlier batch on the page had succeeded, the page shows
  after the failed batch both the failure message and the result block of the earlier
  batch.
\<close>

theorem C10_failed_batch_keeps_earlier_result:
  "(isl a' \<or> isl b' \<or> isl c' \<or> isl d' \<or> isl e' \<longrightarrow>
      result (EmailAnalysis_handleAnalyze a' b' c' d' e' p) = result p
      \<and> render (EmailAnalysis_handleAnalyze a' b' c' d' e'
                  (EmailAnalysis_handleAnalyze (Inr a) (Inr b) (Inr c) (Inr d) (Inr e) p)) =
          \<lparr>error_banner = Some ''Failed to analyze email. Please try again.'',
           result_block = Some
             \<lparr>summary = a ''summary'', sentiment = b ''sentiment'', priority = c ''priority'',
              action_items = d ''action_items'', reply_suggestions = e ''reply_suggestions''\<rparr>\<rparr>)
   \<and> (isl a' \<or> isl b' \<or> isl c' \<or> isl d' \<longrightarrow>
      result (LifeBalance_handleAnalyze a' b' c' d' q) = result q
      \<and> render (LifeBalance_handleAnalyze a' b' c' d'
                  (LifeBalance_handleAnalyze (Inr a) (Inr b) (Inr c) (Inr d) q)) =
          \<lparr>error_banner = Some ''Failed to analyze life balance. Please try again.'',
           result_block = Some
             \<lparr>balance_score = a ''overall_score'', insights = b ''insights'',
              recommendations = c ''recommendations'',
              optimized_schedule = d ''optimized_schedule''\<rparr>\<rparr>)
   \<and> (isl a' \<or> isl b' \<or> isl c' \<or> isl d' \<or> isl e' \<or> isl f' \<longrightarrow>
      result (Memory_handleAnalyze a' b' c' d' e' f' s) = result s
      \<and> render (Memory_handleAnalyze a' b' c' d' e' f'
                  (Memory_handleAnalyze (Inr a) (Inr b) (Inr c) (Inr d) (Inr e) (Inr f) s)) =
          \<lparr>error_banner = Some ''Failed to analyze memory and learning. Please try again.'',
           result_block = Some
             \<lparr>learning_style = a ''learning_style'', performance_metrics = b ''metrics'',
              study_recommendations = c ''recommendations'', key_concepts = d ''concepts'',
              review_questions = e ''questions'', knowledge_gaps = f ''gaps''\<rparr>\<rparr>)"
proof -
  have email: "result (EmailAnalysis_handleAnalyze a' b' c' d' e' p) = result p
      \<and> render (EmailAnalysis_handleAnalyze a' b' c' d' e'
                  (EmailAnalysis_handleAnalyze (Inr a) (Inr b) (Inr c) (Inr d) (Inr e) p)) =
          \<lparr>error_banner = Some ''Failed to analyze email. Please try again.'',
           result_block = Some
             \<lparr>summary = a ''summary'', sentiment = b ''sentiment'', priority = c ''priority'',
              action_items = d ''action_items'', reply_suggestions = e ''reply_suggestions''\<rparr>\<rparr>"
    if "isl a' \<or> isl b' \<or> isl c' \<or> isl d' \<or> isl e'"
    by (simp add: EmailAnalysis_handleAnalyze_rejected [OF that]
          EmailAnalysis_handleAnalyze_fulfilled render_def)
  have life: "result (LifeBalance_handleAnalyze a' b' c' d' q) = result q
      \<and> render (LifeBalance_handleAnalyze a' b' c' d'
                  (LifeBalance_handleAnalyze (Inr a) (Inr b) (Inr c) (Inr d) q)) =
          \<lparr>error_banner = Some ''Failed to analyze life balance. Please try again.'',
           result_block = Some
             \<lparr>balance_score = a ''overall_score'', insights = b ''insights'',
              recommendations = c ''recommendations'',
              optimized_schedule = d ''optimized_schedule''\<rparr>\<rparr>"
    if "isl a' \<or> isl b' \<or> isl c' \<or> isl d'"
    by (simp add: LifeBalance_handleAnalyze_rejected [OF that]
          LifeBalance_handleAnalyze_fulfilled render_def)
  have memory: "result (Memory_handleAnalyze a' b' c' d' e' f' s) = result s
      \<and> render (Memory_handleAnalyze a' b' c' d' e' f'
                  (Memory_handleAnalyze (Inr a) (Inr b) (Inr c) (Inr d) (Inr e) (Inr f) s)) =
          \<lparr>error_banner = Some ''Failed to analyze memory and learning. Please try again.'',
           result_block = Some
             \<lparr>learning_style = a ''learning_style'', performance_metrics = b ''metrics'',
              study_recommendations = c ''recommendations'', key_concepts = d ''concepts'',
              review_questions = e ''questions'', knowledge_gaps = f ''gaps''\<rparr>\<rparr>"
    if "isl a' \<or> isl b' \<or> isl c' \<or> isl d' \<or> isl e' \<or> isl f'"
    by (simp add: Memory_handleAnalyze_rejected [OF that]
          Memory_handleAnalyze_fulfilled render_def)
  from email life memory show ?thesis by blast
qed

text \<open>
  On the email page: a batch that succeeds on the page just opened, then a batch whose
  last call rejects. The summary and the other fields of the first batch are still shown,
  next to the failure message.
\<close>

theorem C10_failed_batch_keeps_earlier_result_witness:
  "isl rejected
   \<and> render (EmailAnalysis_handleAnalyze (resolved ''summary'' ''Another Summary'')
        (resolved ''sentiment'' ''negative'') (resolved ''priority'' ''low'')
        (resolved ''action_items'' ''Action 2'') rejected
        (EmailAnalysis_handleAnalyze (resolved ''summary'' ''Test Summary'')
           (resolved ''sentiment'' ''positive'') (resolved ''priority'' ''high'')
           (resolved ''action_items'' ''Action 1'') (resolved ''reply_suggestions'' ''Reply 1'')
           initial_page))
     = \<lparr>error_banner = Some ''Failed to analyze email. Please try again.'',
        result_block = Some
          \<lparr>summary = Some ''Test Summary'', sentiment = Some ''positive'',
           priority = Some ''high'', action_items = Some ''Action 1'',
           reply_suggestions = Some ''Reply 1''\<rparr>\<rparr>
   \<and> result (LifeBalance_handleAnalyze (resolved ''overall_score'' ''7.5'') rejected
        (resolved ''recommendations'' ''Take more breaks'')
        (resolved ''optimized_schedule'' ''Optimized schedule here'')
        (initial_page\<lparr>result := Some
           \<lparr>balance_score = Some ''7.5'', insights = Some ''Good work-life balance'',
            recommendations = None, optimized_schedule = None\<rparr>\<rparr>))
     = Some \<lparr>balance_score = Some ''7.5'', insights = Some ''Good work-life balance'',
             recommendations = None, optimized_schedule = None\<rparr>
   \<and> result (Memory_handleAnalyze rejected rejected rejected rejected rejected rejected
        (initial_page :: string memory_result page)) = None"
proof -
  have h: "isl rejected"
    by (simp add: rejected_def)
  from C10_failed_batch_keeps_earlier_result
         [where a' = "resolved ''summary'' ''Another Summary''"
            and b' = "resolved ''sentiment'' ''negative''"
            and c' = "resolved ''priority'' ''low''"
            and d' = "resolved ''action_items'' ''Action 2''"
            and e' = rejected
            and a = "[''summary'' \<mapsto> ''Test Summary'']"
            and b = "[''sentiment'' \<mapsto> ''positive'']"
            and c = "[''priority'' \<mapsto> ''high'']"
            and d = "[''action_items'' \<mapsto> ''Action 1'']"
            and e = "[''reply_suggestions'' \<mapsto> ''Reply 1'']"
            and p = initial_page]
       C10_failed_batch_keeps_earlier_result
         [where a' = "resolved ''overall_score'' ''7.5''"
            and b' = rejected
            and c' = "resolved ''recommendations'' ''Take more breaks''"
            and d' = "resolved ''optimized_schedule'' ''Optimized schedule here''"
            and q = "initial_page\<lparr>result := Some
               \<lparr>balance_score = Some ''7.5'', insights = Some ''Good work-life balance'',
                recommendations = None, optimized_schedule = None\<rparr>\<rparr>"]
       C10_failed_batch_keeps_earlier_result
         [where a' = rejected and b' = rejected and c' = rejected and d' = rejected
            and e' = rejected and f' = rejected
            and s = "initial_page :: string memory_result page"]
       h
  show ?thesis by (simp add: resolved_def initial_page_def)
qed

end
